theory Spec2Isabelle
  imports Main "HOL-Library.Char_ord" "HOL-Library.List_Lexorder"
begin

section \<open>The support bot: registry, handlers and backups\<close>

text \<open>
  The development follows \<^verbatim>\<open>src/Support/support_bot.py\<close>. The bot keeps five
  module-level dictionaries (\<^verbatim>\<open>admin_tags\<close>, \<^verbatim>\<open>admin_levels\<close>,
  \<^verbatim>\<open>active_dialogs\<close>, \<^verbatim>\<open>one_time_passwords\<close>, \<^verbatim>\<open>admin_active_status\<close>) and
  mutates them from its Telegram handlers. Each handler is a function from the registry
  to the new registry and the list of outside calls it makes, in the order it makes them.
\<close>

subsection \<open>Python dictionaries\<close>

text \<open>
  A Python \<^verbatim>\<open>dict\<close> iterates in insertion order, and two loops of the bot stop at the
  first match (\<^verbatim>\<open>break\<close>), so a dictionary is an association list in insertion order.
  \<^verbatim>\<open>d[k] = v\<close> replaces the value in place when the key is present and appends the
  pair otherwise; \<^verbatim>\<open>del d[k]\<close> removes the pair.
\<close>

type_synonym ('k, 'v) dict = "('k \<times> 'v) list"

primrec dict_get :: "('k, 'v) dict \<Rightarrow> 'k \<Rightarrow> 'v option" where
  "dict_get [] k = None"
| "dict_get (p # ps) k = (if fst p = k then Some (snd p) else dict_get ps k)"

primrec dict_set :: "('k, 'v) dict \<Rightarrow> 'k \<Rightarrow> 'v \<Rightarrow> ('k, 'v) dict" where
  "dict_set [] k v = [(k, v)]"
| "dict_set (p # ps) k v = (if fst p = k then (k, v) # ps else p # dict_set ps k v)"

primrec dict_del :: "('k, 'v) dict \<Rightarrow> 'k \<Rightarrow> ('k, 'v) dict" where
  "dict_del [] k = []"
| "dict_del (p # ps) k = (if fst p = k then dict_del ps k else p # dict_del ps k)"

definition dict_has :: "('k, 'v) dict \<Rightarrow> 'k \<Rightarrow> bool" where
  \<comment> \<open>\<^verbatim>\<open>k in d\<close>\<close>
  "dict_has d k = (dict_get d k \<noteq> None)"

definition dict_values :: "('k, 'v) dict \<Rightarrow> 'v list" where
  \<comment> \<open>\<^verbatim>\<open>d.values()\<close>\<close>
  "dict_values d = map snd d"

definition dict_get_default :: "('k, 'v) dict \<Rightarrow> 'k \<Rightarrow> 'v \<Rightarrow> 'v" where
  \<comment> \<open>\<^verbatim>\<open>d.get(k, default)\<close>\<close>
  "dict_get_default d k dflt = (case dict_get d k of None \<Rightarrow> dflt | Some v \<Rightarrow> v)"

primrec find_key_of :: "('k, 'v) dict \<Rightarrow> 'v \<Rightarrow> 'k option" where
  \<comment> \<open>\<^verbatim>\<open>for k, v in d.items(): if v == x: ...; break\<close>: the first key holding the value\<close>
  "find_key_of [] x = None"
| "find_key_of (p # ps) x = (if snd p = x then Some (fst p) else find_key_of ps x)"

subsection \<open>The registry\<close>

text \<open>
  Identifiers of users and chats are Python integers. A password's issue time and the
  clock are \<^verbatim>\<open>datetime\<close> values, which count whole microseconds; they are integers of
  microseconds here, so that \<^verbatim>\<open>(now - issued).total_seconds() <= 86400\<close> is the integer
  comparison with \<open>86400000000\<close>.
\<close>

record bot_state =
  admin_tags :: "(int, string) dict"
  admin_levels :: "(int, int) dict"
  active_dialogs :: "(int, int) dict"
  one_time_passwords :: "(string, int) dict"
  admin_active_status :: "(int, bool) dict"

type_synonym snapshot =
  "(int, string) dict \<times> (int, int) dict \<times> (int, int) dict \<times> (int, bool) dict"

definition snapshot_of :: "bot_state \<Rightarrow> snapshot" where
  \<comment> \<open>the four tables \<^verbatim>\<open>save_state()\<close> writes; passwords are never stored\<close>
  "snapshot_of st =
     (admin_tags st, admin_levels st, active_dialogs st, admin_active_status st)"

definition day_us :: int where
  \<comment> \<open>86400 seconds, in microseconds\<close>
  "day_us = 86400000000"

subsection \<open>Outside calls\<close>

text \<open>
  The texts the bot sends are Russian sentences; each is represented by a constructor
  naming the sentence, with the values the source interpolates that matter to routing
  (a tag, a password, the forwarded text). Display names are left out.
\<close>

datatype notice =
    SetTagUsage
  | TagSet string
  | SaveFailed
  | PasswordExpired
  | WrongPassword
  | AdminReply string string
  | ReplyNotDelivered
  | AdminAway string
  | AdminBusy string
  | AdminChosen string
  | ClientChoseYou
  | AdminNotFound
  | ClientMessage string
  | NewClientMessage int string
  | MessageReceived
  | HandlerError
  | PasswordIssued string
  | PromoteInfoText
  | ClientAlreadyTaken
  | ClientTaken
  | AdminJoined
  | ConfirmClosePrompt
  | NoActiveDialogs
  | DialogClosedClient
  | DialogClosedAdmin
  | MonitorReport
  | StatsReport
  | NoStatsAccess
  | NothingToTransfer
  | ChooseTransferTarget
  | TransferCancelled
  | NoDialogToTransfer
  | TransferTargetBusy
  | TransferredToAdmin string
  | ClientHandedToYou
  | TransferDone string
  | TransferFailed
  | AdminPanel bool

text \<open>
  A call to the outside is recorded with what it is given. \<^verbatim>\<open>save_state()\<close> deletes
  and writes again the four tables inside one transaction; it is the call \<open>SaveState\<close>
  with the tables as they are in memory at that moment. What the database does when the
  transaction fails (the second attempt and the restore from a backup) is not modelled.
  \<open>SaveHistory\<close> is \<^verbatim>\<open>save_message_to_history\<close>, \<open>RewriteHistory\<close> the two
  \<^verbatim>\<open>UPDATE dialog_history\<close> statements after a chat has migrated, and \<open>UpsertAdmin\<close>
  the three \<^verbatim>\<open>INSERT OR REPLACE\<close> statements of \<^verbatim>\<open>set_tag_command\<close>.
\<close>

datatype effect =
    AnswerCallback
  | SendMessage int notice
  | EditMessage int notice
  | EditMarkup int
  | SaveState snapshot
  | SaveHistory int int string
  | RewriteHistory int int
  | UpsertAdmin int string int bool

text \<open>
  What the outside answers is an input of the model: the outcome of
  \<^verbatim>\<open>bot.send_message\<close> for each chat, whether \<^verbatim>\<open>bot.get_chat\<close> finds a chat, whether
  an edit or a callback answer goes through, and whether the two direct database writes
  (the history row, the \<^verbatim>\<open>INSERT OR REPLACE\<close> of \<^verbatim>\<open>set_tag_command\<close>) succeed.
  \<open>stats_changed\<close> tells whether the statistics text differs from the text the pressed
  message shows.
  \<^verbatim>\<open>admin_chat_id\<close> is the constant \<^verbatim>\<open>ADMIN_CHAT_ID\<close> read from the environment.
\<close>

datatype send_result =
    Delivered
  | ChatMigrated "int option"
  | Unauthorized
  | SendFailed

record env =
  send_outcome :: "int \<Rightarrow> send_result"
  chat_known :: "int \<Rightarrow> bool"
  edit_ok :: bool
  answer_ok :: bool
  history_ok :: bool
  db_ok :: bool
  stats_changed :: bool
  admin_chat_id :: int

text \<open>
  The command handlers and the handlers of button presses call \<^verbatim>\<open>context.bot\<close>
  directly: a call that fails raises, and the rest of the block is skipped. \<open>attempt\<close>
  lists the calls made up to and including the first one that fails.
\<close>

primrec attempt :: "(effect \<times> bool) list \<Rightarrow> effect list" where
  "attempt [] = []"
| "attempt (c # cs) = fst c # (if snd c then attempt cs else [])"

definition delivered :: "env \<Rightarrow> int \<Rightarrow> bool" where
  "delivered e chat_id = (send_outcome e chat_id = Delivered)"

subsection \<open>\<^verbatim>\<open>set_tag_command\<close>\<close>

text \<open>
  A valid password is redeemed in memory first; the three \<^verbatim>\<open>INSERT OR REPLACE\<close>
  statements and the confirmation stand in a \<^verbatim>\<open>try\<close> whose \<^verbatim>\<open>except\<close> branch
  sends the failure notice and leaves the dictionaries as they are.
\<close>

definition set_tag_command ::
  "env \<Rightarrow> int \<Rightarrow> bot_state \<Rightarrow> int \<Rightarrow> int \<Rightarrow> string list \<Rightarrow> bot_state \<times> effect list" where
  "set_tag_command e now st user_id chat_id args =
     (case args of
        [password, tag] \<Rightarrow>
          (case dict_get (one_time_passwords st) password of
             Some issued \<Rightarrow>
               if now - issued \<le> day_us then
                 (st\<lparr>admin_tags := dict_set (admin_tags st) user_id tag,
                     admin_levels := dict_set (admin_levels st) user_id 1,
                     admin_active_status := dict_set (admin_active_status st) user_id True,
                     one_time_passwords := dict_del (one_time_passwords st) password\<rparr>,
                  (let calls = [(UpsertAdmin user_id tag 1 True, db_ok e),
                                (SendMessage chat_id (TagSet tag), delivered e chat_id)]
                   in attempt calls @
                      (if list_all snd calls then [] else [SendMessage chat_id SaveFailed])))
               else
                 (st\<lparr>one_time_passwords := dict_del (one_time_passwords st) password\<rparr>,
                  [SendMessage chat_id PasswordExpired])
           | None \<Rightarrow> (st, [SendMessage chat_id WrongPassword]))
      | _ \<Rightarrow> (st, [SendMessage chat_id SetTagUsage]))"

subsection \<open>\<^verbatim>\<open>safe_send_message\<close>\<close>

text \<open>
  \<^verbatim>\<open>safe_send_message\<close> never raises. When the chat has migrated and the handler finds
  the new id (a value that is neither \<^verbatim>\<open>None\<close> nor \<open>0\<close>), the first dialog with that
  client is rewritten to the new id and saved, the history rows are rewritten, and the
  text is sent once more. When the peer has blocked the bot, the first dialog with that
  client is deleted and saved. The result tells whether a message object came back.
\<close>

definition safe_send_message ::
  "env \<Rightarrow> bot_state \<Rightarrow> int \<Rightarrow> notice \<Rightarrow> bot_state \<times> effect list \<times> bool" where
  "safe_send_message e st chat_id n =
     (case send_outcome e chat_id of
        Delivered \<Rightarrow> (st, [SendMessage chat_id n], True)
      | ChatMigrated new \<Rightarrow>
          (case new of
             None \<Rightarrow> (st, [SendMessage chat_id n], False)
           | Some new_chat_id \<Rightarrow>
               if new_chat_id = 0 then (st, [SendMessage chat_id n], False)
               else
                 (case find_key_of (active_dialogs st) chat_id of
                    None \<Rightarrow>
                      (st,
                       [SendMessage chat_id n, RewriteHistory chat_id new_chat_id,
                        SendMessage new_chat_id n],
                       send_outcome e new_chat_id = Delivered)
                  | Some admin_id \<Rightarrow>
                      let st' = st\<lparr>active_dialogs :=
                                    dict_set (active_dialogs st) admin_id new_chat_id\<rparr>
                      in (st',
                          [SendMessage chat_id n, SaveState (snapshot_of st'),
                           RewriteHistory chat_id new_chat_id, SendMessage new_chat_id n],
                          send_outcome e new_chat_id = Delivered)))
      | Unauthorized \<Rightarrow>
          (case find_key_of (active_dialogs st) chat_id of
             None \<Rightarrow> (st, [SendMessage chat_id n], False)
           | Some admin_id \<Rightarrow>
               let st' = st\<lparr>active_dialogs := dict_del (active_dialogs st) admin_id\<rparr>
               in (st', [SendMessage chat_id n, SaveState (snapshot_of st')], False))
      | SendFailed \<Rightarrow> (st, [SendMessage chat_id n], False))"

definition then_send ::
  "env \<Rightarrow> int \<Rightarrow> notice \<Rightarrow> bot_state \<times> effect list \<Rightarrow> bot_state \<times> effect list" where
  \<comment> \<open>a \<^verbatim>\<open>safe_send_message\<close> whose result the caller drops, after the calls made so far\<close>
  "then_send e chat_id n r =
     (case r of (st, es) \<Rightarrow>
        (case safe_send_message e st chat_id n of (st', es', _) \<Rightarrow> (st', es @ es')))"

subsection \<open>\<^verbatim>\<open>handle_message\<close>\<close>

text \<open>
  \<^verbatim>\<open>str.lower()\<close> on the letters A to Z. Tags and messages are byte strings here and
  other bytes are left as they are, so the model follows the source on ASCII text only:
  Python also folds the cased letters beyond ASCII.
\<close>

definition lower_char :: "char \<Rightarrow> char" where
  "lower_char c =
     (if CHR ''A'' \<le> c \<and> c \<le> CHR ''Z'' then char_of (of_char c + (32::nat)) else c)"

definition lower :: "string \<Rightarrow> string" where
  "lower s = map lower_char s"

datatype tag_scan = Away string | Selected int | NoMatch

primrec scan_tags :: "(int, string) dict \<Rightarrow> (int, bool) dict \<Rightarrow> string \<Rightarrow> tag_scan" where
  \<comment> \<open>the loop over \<^verbatim>\<open>admin_tags.items()\<close>: the first admin whose tag matches decides\<close>
  "scan_tags [] status requested_tag = NoMatch"
| "scan_tags (p # ps) status requested_tag =
     (if lower (snd p) = requested_tag then
        (if dict_get_default status (fst p) True then Selected (fst p) else Away (snd p))
      else scan_tags ps status requested_tag)"

text \<open>
  \<^verbatim>\<open>if selected_admin:\<close> and \<^verbatim>\<open>if admin_id:\<close> test a value that is \<^verbatim>\<open>None\<close> or
  an integer, so the id \<open>0\<close> counts as no admin.
\<close>

definition handle_message ::
  "env \<Rightarrow> bot_state \<Rightarrow> int \<Rightarrow> int \<Rightarrow> string \<Rightarrow> bot_state \<times> effect list" where
  "handle_message e st user_id chat_id message =
     (if dict_has (admin_levels st) user_id then
        (case dict_get (active_dialogs st) user_id of
           None \<Rightarrow> (st, [])
         | Some client_id \<Rightarrow>
             (case safe_send_message e st client_id
                     (AdminReply (dict_get_default (admin_tags st) user_id ''Admin'') message) of
                (st1, es1, msg_sent) \<Rightarrow>
                  if msg_sent then
                    (if history_ok e then
                       (st1, es1 @ [SaveHistory user_id client_id message])
                     else
                       then_send e chat_id HandlerError
                         (st1, es1 @ [SaveHistory user_id client_id message]))
                  else then_send e chat_id ReplyNotDelivered (st1, es1)))
      else if take 1 message = ''#'' then
        (let requested_tag = lower (drop 1 message) in
         case scan_tags (admin_tags st) (admin_active_status st) requested_tag of
           Away tag \<Rightarrow> then_send e chat_id (AdminAway tag) (st, [])
         | Selected selected_admin \<Rightarrow>
             if selected_admin \<noteq> 0 then
               (if dict_has (active_dialogs st) selected_admin then
                  then_send e chat_id (AdminBusy requested_tag) (st, [])
                else
                  let st' = st\<lparr>active_dialogs :=
                                dict_set (active_dialogs st) selected_admin chat_id\<rparr>
                  in then_send e selected_admin ClientChoseYou
                       (then_send e chat_id (AdminChosen requested_tag)
                          (st', [SaveState (snapshot_of st')])))
             else then_send e chat_id AdminNotFound (st, [])
         | NoMatch \<Rightarrow> then_send e chat_id AdminNotFound (st, []))
      else
        (let unclaimed =
               then_send e chat_id MessageReceived
                 (then_send e (admin_chat_id e) (NewClientMessage chat_id message) (st, []))
         in case find_key_of (active_dialogs st) chat_id of
              None \<Rightarrow> unclaimed
            | Some admin_id \<Rightarrow>
                if admin_id \<noteq> 0 then
                  (case then_send e admin_id (ClientMessage message) (st, []) of
                     (st1, es1) \<Rightarrow>
                       if history_ok e then
                         (st1, es1 @ [SaveHistory chat_id admin_id message])
                       else
                         then_send e chat_id HandlerError
                           (st1, es1 @ [SaveHistory chat_id admin_id message]))
                else unclaimed))"

subsection \<open>\<^verbatim>\<open>button_callback\<close> and \<^verbatim>\<open>transfer_client\<close>\<close>

text \<open>
  \<^verbatim>\<open>transfer_client\<close>. Both \<^verbatim>\<open>get_chat\<close> calls stand before the two writes inside the
  \<^verbatim>\<open>try\<close>, so a chat that cannot be fetched leaves the table as it was; a call that
  fails after \<^verbatim>\<open>save_state()\<close> leads to the \<^verbatim>\<open>except\<close> branch, which edits the
  message and keeps the transfer.
\<close>

definition transfer_client ::
  "env \<Rightarrow> bot_state \<Rightarrow> int \<Rightarrow> int \<Rightarrow> int \<Rightarrow> bot_state \<times> effect list" where
  "transfer_client e st user_id chat_id target_admin_id =
     (case dict_get (active_dialogs st) user_id of
        None \<Rightarrow> (st, [EditMessage chat_id NoDialogToTransfer])
      | Some client_id \<Rightarrow>
          if dict_has (active_dialogs st) target_admin_id then
            (st, attempt [(EditMessage chat_id TransferTargetBusy, edit_ok e),
                          (EditMarkup chat_id, edit_ok e)])
          else if chat_known e target_admin_id \<and> chat_known e client_id then
            (let target_admin_tag = dict_get_default (admin_tags st) target_admin_id ''Admin'';
                 st' = st\<lparr>active_dialogs :=
                            dict_set (dict_del (active_dialogs st) user_id)
                              target_admin_id client_id\<rparr>;
                 calls =
                   [(SaveState (snapshot_of st'), True),
                    (SendMessage client_id (TransferredToAdmin target_admin_tag),
                     delivered e client_id),
                    (SendMessage target_admin_id ClientHandedToYou,
                     delivered e target_admin_id),
                    (EditMessage chat_id (TransferDone target_admin_tag), edit_ok e)]
             in (st', attempt calls @
                      (if list_all snd calls then [] else [EditMessage chat_id TransferFailed])))
          else (st, [EditMessage chat_id TransferFailed]))"

definition toggle_activity_status :: "bot_state \<Rightarrow> int \<Rightarrow> bot_state \<times> effect list" where
  "toggle_activity_status st user_id =
     (if dict_has (admin_levels st) user_id then
        (let st' = st\<lparr>admin_active_status :=
                       dict_set (admin_active_status st) user_id
                         (\<not> dict_get_default (admin_active_status st) user_id True)\<rparr>
         in (st', [SaveState (snapshot_of st')]))
      else (st, []))"

text \<open>
  The callback data is a string the bot wrote itself into the button
  (\<^verbatim>\<open>f"take_client_{chat_id}"\<close>, \<^verbatim>\<open>f"transfer_{target_admin_id}"\<close>, or a fixed word); it
  is given here already decoded, one constructor for each branch of the \<^verbatim>\<open>elif\<close>
  chain. \<open>password\<close> is what \<^verbatim>\<open>generate_one_time_password()\<close> returns in this call.
  The monitoring branch only reads, and its report is one notice. The statistics branch
  only reads too: it edits the message when the text has changed and answers the callback
  once more when it has not, or when the edit fails inside its \<^verbatim>\<open>try\<close>.
\<close>

datatype callback_data =
    GeneratePassword
  | PromoteInfo
  | TakeClient int
  | CloseDialog
  | ConfirmClose
  | Monitor
  | Stats
  | TransferClient
  | TransferTo int
  | CancelTransfer
  | ToggleStatus
  | OtherData

definition button_branch ::
  "env \<Rightarrow> int \<Rightarrow> string \<Rightarrow> bot_state \<Rightarrow> int \<Rightarrow> int \<Rightarrow> callback_data \<Rightarrow>
     bot_state \<times> effect list" where
  "button_branch e now password st user_id chat_id data =
     (case data of
        GeneratePassword \<Rightarrow>
          if dict_get (admin_levels st) user_id = Some 2 then
            (st\<lparr>one_time_passwords := dict_set (one_time_passwords st) password now\<rparr>,
             [SendMessage chat_id (PasswordIssued password)])
          else (st, [])
      | PromoteInfo \<Rightarrow>
          if dict_get (admin_levels st) user_id = Some 2 then
            (st, [SendMessage chat_id PromoteInfoText])
          else (st, [])
      | TakeClient client_id \<Rightarrow>
          if client_id \<in> set (dict_values (active_dialogs st)) then
            (st, [EditMessage chat_id ClientAlreadyTaken])
          else
            (st\<lparr>active_dialogs := dict_set (active_dialogs st) user_id client_id\<rparr>,
             attempt [(EditMessage chat_id ClientTaken, edit_ok e),
                      (SendMessage client_id AdminJoined, delivered e client_id)])
      | CloseDialog \<Rightarrow>
          if dict_has (active_dialogs st) user_id then
            (st, [EditMessage chat_id ConfirmClosePrompt])
          else (st, [EditMessage chat_id NoActiveDialogs])
      | ConfirmClose \<Rightarrow>
          (case dict_get (active_dialogs st) user_id of
             Some client_id \<Rightarrow>
               (st\<lparr>active_dialogs := dict_del (active_dialogs st) user_id\<rparr>,
                attempt [(SendMessage client_id DialogClosedClient, delivered e client_id),
                         (EditMessage chat_id DialogClosedAdmin, edit_ok e)])
           | None \<Rightarrow> (st, []))
      | Monitor \<Rightarrow>
          if dict_get (admin_levels st) user_id = Some 2 then
            (st, [SendMessage chat_id MonitorReport])
          else (st, [])
      | Stats \<Rightarrow>
          if dict_has (admin_levels st) user_id then
            (st,
             if stats_changed e then
               (if edit_ok e then [EditMessage chat_id StatsReport]
                else [EditMessage chat_id StatsReport, AnswerCallback])
             else [AnswerCallback])
          else (st, [EditMessage chat_id NoStatsAccess])
      | TransferClient \<Rightarrow>
          if dict_has (active_dialogs st) user_id then
            (st, [EditMessage chat_id ChooseTransferTarget])
          else (st, [EditMessage chat_id NothingToTransfer])
      | TransferTo target_admin_id \<Rightarrow> transfer_client e st user_id chat_id target_admin_id
      | CancelTransfer \<Rightarrow> (st, [EditMessage chat_id TransferCancelled])
      | ToggleStatus \<Rightarrow>
          (case toggle_activity_status st user_id of
             (st', es) \<Rightarrow>
               (st', es @ [EditMessage chat_id
                             (AdminPanel (dict_get_default (admin_active_status st') user_id True))]))
      | OtherData \<Rightarrow> (st, []))"

definition button_callback ::
  "env \<Rightarrow> int \<Rightarrow> string \<Rightarrow> bot_state \<Rightarrow> int \<Rightarrow> int \<Rightarrow> callback_data \<Rightarrow>
     bot_state \<times> effect list" where
  \<comment> \<open>\<^verbatim>\<open>query.answer()\<close> comes first; when it raises, no branch runs\<close>
  "button_callback e now password st user_id chat_id data =
     (if answer_ok e then
        (case button_branch e now password st user_id chat_id data of
           (st', es) \<Rightarrow> (st', AnswerCallback # es))
      else (st, [AnswerCallback]))"

subsection \<open>Runs of the bot\<close>

text \<open>
  \<^verbatim>\<open>init_database\<close> clears the dictionaries and loads them from the tables, after
  inserting the level-2 admin of the configuration (\<^verbatim>\<open>LEVEL2_ADMIN_ID\<close>, when it is
  not \<open>0\<close>) with the tag \<^verbatim>\<open>admin\<close>. \<open>initial_state\<close> is what a database file with
  no earlier rows gives. An event is an update of Telegram with the clock at its arrival.
\<close>

definition initial_state :: "int \<Rightarrow> bot_state" where
  "initial_state level2_admin_id =
     (if level2_admin_id \<noteq> 0 then
        \<lparr>admin_tags = [(level2_admin_id, ''admin'')],
         admin_levels = [(level2_admin_id, 2)],
         active_dialogs = [],
         one_time_passwords = [],
         admin_active_status = [(level2_admin_id, True)]\<rparr>
      else
        \<lparr>admin_tags = [], admin_levels = [], active_dialogs = [],
         one_time_passwords = [], admin_active_status = []\<rparr>)"

datatype event =
    TextMessage int int string
  | SetTag int int "string list"
  | Button int int callback_data string

definition step :: "env \<Rightarrow> int \<times> event \<Rightarrow> bot_state \<Rightarrow> bot_state \<times> effect list" where
  "step e ev st =
     (case ev of
        (now, TextMessage user_id chat_id message) \<Rightarrow> handle_message e st user_id chat_id message
      | (now, SetTag user_id chat_id args) \<Rightarrow> set_tag_command e now st user_id chat_id args
      | (now, Button user_id chat_id data password) \<Rightarrow>
          button_callback e now password st user_id chat_id data)"

primrec run :: "env \<Rightarrow> (int \<times> event) list \<Rightarrow> bot_state \<Rightarrow> bot_state \<times> effect list" where
  "run e [] st = (st, [])"
| "run e (ev # evs) st =
     (case step e ev st of
        (st1, es1) \<Rightarrow> (case run e evs st1 of (st2, es2) \<Rightarrow> (st2, es1 @ es2)))"

definition all_delivered :: env where
  \<comment> \<open>every outside call succeeds; the admins' group chat is \<open>-1000\<close>\<close>
  "all_delivered =
     \<lparr>send_outcome = (\<lambda>_. Delivered), chat_known = (\<lambda>_. True), edit_ok = True,
      answer_ok = True, history_ok = True, db_ok = True, stats_changed = True,
      admin_chat_id = - 1000\<rparr>"

definition client_blocked :: env where
  \<comment> \<open>as \<open>all_delivered\<close>, but client \<open>100\<close> has blocked the bot\<close>
  "client_blocked =
     all_delivered\<lparr>send_outcome := (\<lambda>chat_id. if chat_id = 100 then Unauthorized else Delivered)\<rparr>"

subsection \<open>Backups: \<^verbatim>\<open>DatabaseConnection._create_backup\<close> and \<^verbatim>\<open>init_database\<close>\<close>

text \<open>
  The backup directory is the list of its file names (\<^verbatim>\<open>os.listdir\<close>), and the database
  file is there or not. \<^verbatim>\<open>shutil.copy2\<close> and \<^verbatim>\<open>os.remove\<close> can fail; the \<^verbatim>\<open>except\<close>
  branch of \<^verbatim>\<open>_create_backup\<close> logs the failure and ends the function, so a failed copy
  deletes nothing and a failed deletion ends the loop. \<open>stamp\<close> is
  \<^verbatim>\<open>datetime.now().strftime("%Y%m%d_%H%M%S")\<close>. \<^verbatim>\<open>sorted\<close> orders strings by code
  point, the lexicographic order of \<open>char list\<close>.
\<close>

record file_system =
  db_exists :: bool
  backup_dir :: "string list"

record file_env =
  copy_ok :: bool
  remove_ok :: "string \<Rightarrow> bool"

datatype file_call = CopyDb string | RemoveBackup string | OpenDb

definition endswith :: "string \<Rightarrow> string \<Rightarrow> bool" where
  "endswith s suffix =
     (length suffix \<le> length s \<and> drop (length s - length suffix) s = suffix)"

definition backup_name :: "string \<Rightarrow> string" where
  "backup_name stamp = ''support_bot_backup_'' @ stamp @ ''.db''"

primrec remove_each ::
  "(string \<Rightarrow> bool) \<Rightarrow> string list \<Rightarrow> string list \<Rightarrow> string list \<times> file_call list" where
  \<comment> \<open>\<^verbatim>\<open>for old_backup in backups[:-5]: os.remove(...)\<close>\<close>
  "remove_each ok [] dir = (dir, [])"
| "remove_each ok (f # fs) dir =
     (if ok f then
        (case remove_each ok fs (removeAll f dir) of (dir', cs) \<Rightarrow> (dir', RemoveBackup f # cs))
      else (dir, [RemoveBackup f]))"

definition create_backup ::
  "file_env \<Rightarrow> string \<Rightarrow> file_system \<Rightarrow> file_system \<times> file_call list" where
  "create_backup io stamp fs =
     (if db_exists fs then
        (if copy_ok io then
           (let copied = (if backup_name stamp \<in> set (backup_dir fs) then backup_dir fs
                          else backup_dir fs @ [backup_name stamp]);
                backups = sort (filter (\<lambda>f. endswith f ''.db'') copied)
            in case remove_each (remove_ok io) (take (length backups - 5) backups) copied of
                 (dir', cs) \<Rightarrow> (fs\<lparr>backup_dir := dir'\<rparr>, CopyDb (backup_name stamp) # cs))
         else (fs, [CopyDb (backup_name stamp)]))
      else (fs, []))"

definition init_database_open ::
  "file_env \<Rightarrow> string \<Rightarrow> file_system \<Rightarrow> file_system \<times> file_call list" where
  \<comment> \<open>the first lines of \<^verbatim>\<open>init_database\<close>: the backup, then \<^verbatim>\<open>sqlite3.connect(DB_PATH)\<close>,
      which creates the file when it is missing\<close>
  "init_database_open io stamp fs =
     (case (if db_exists fs then create_backup io stamp fs else (fs, [])) of
        (fs', cs) \<Rightarrow> (fs'\<lparr>db_exists := True\<rparr>, cs @ [OpenDb]))"

definition files_ok :: file_env where
  "files_ok = \<lparr>copy_ok = True, remove_ok = (\<lambda>_. True)\<rparr>"

subsection \<open>Example inputs\<close>

definition password_issued :: bot_state where
  \<comment> \<open>the seeded admin \<open>1\<close> and a password issued at time \<open>0\<close>\<close>
  "password_issued =
     \<lparr>admin_tags = [(1, ''admin'')], admin_levels = [(1, 2)], active_dialogs = [],
      one_time_passwords = [(''k3Jx82Qa'', 0)], admin_active_status = [(1, True)]\<rparr>"

definition two_admins :: bot_state where
  "two_admins =
     \<lparr>admin_tags = [(1, ''admin''), (2, ''bob'')], admin_levels = [(1, 2), (2, 1)],
      active_dialogs = [(1, 100)], one_time_passwords = [],
      admin_active_status = [(1, True), (2, True)]\<rparr>"

definition both_busy :: bot_state where
  "both_busy =
     \<lparr>admin_tags = [(1, ''admin''), (2, ''bob'')], admin_levels = [(1, 2), (2, 1)],
      active_dialogs = [(1, 100), (2, 200)], one_time_passwords = [],
      admin_active_status = [(1, True), (2, True)]\<rparr>"

definition crowded_dir :: file_system where
  "crowded_dir =
     \<lparr>db_exists = True,
      backup_dir =
        [''support_bot_backup_20240104_120000.db'', ''notes.txt'',
         ''support_bot_backup_20240101_120000.db'', ''support_bot_backup_20240103_120000.db'',
         ''support_bot_backup_20240102_120000.db'', ''support_bot_backup_20231231_120000.db'']\<rparr>"

section \<open>Properties\<close>

subsection \<open>Dictionaries and call lists\<close>

lemma dict_get_set: "dict_get (dict_set d k v) k' = (if k' = k then Some v else dict_get d k')"
  by (induction d) auto

lemma dict_get_del: "dict_get (dict_del d k) k' = (if k' = k then None else dict_get d k')"
  by (induction d) auto

lemma dict_set_values:
  "set (dict_values (dict_set d k v)) \<subseteq> insert v (set (dict_values d))"
  by (induction d) (auto simp: dict_values_def)

lemma dict_set_distinct_values:
  "distinct (dict_values d) \<Longrightarrow> v \<notin> set (dict_values d) \<Longrightarrow>
   distinct (dict_values (dict_set d k v))"
proof (induction d)
  case Nil
  then show ?case by (simp add: dict_values_def)
next
  case (Cons p d)
  have "snd p \<notin> set (dict_values (dict_set d k v))"
    using Cons.prems dict_set_values [of d k v] by (auto simp: dict_values_def)
  with Cons show ?case by (auto simp: dict_values_def)
qed

lemma attempt_subset: "set (attempt cs) \<subseteq> fst ` set cs"
  by (induction cs) auto

subsection \<open>Lists of file names\<close>

lemma remove_each_all_ok:
  "(\<And>f. ok f) \<Longrightarrow> remove_each ok fs dir = (filter (\<lambda>f. f \<notin> set fs) dir, map RemoveBackup fs)"
proof (induction fs arbitrary: dir)
  case Nil
  then show ?case by simp
next
  case (Cons f fs)
  have "filter (\<lambda>g. g \<notin> set fs) (removeAll f dir) = filter (\<lambda>g. g \<notin> set (f # fs)) dir"
    by (induction dir) auto
  with Cons show ?case by simp
qed

lemma strict_take_drop:
  fixes xs :: "'a::linorder list"
  assumes "sorted xs" "distinct xs"
  shows "\<forall>f\<in>set (take k xs). \<forall>g\<in>set (drop k xs). f < g"
proof -
  have "sorted_wrt (<) (take k xs @ drop k xs)"
    using assms by (simp add: strict_sorted_iff)
  then show ?thesis
    unfolding sorted_wrt_append by blast
qed

lemma filter_out_prefix:
  assumes "distinct xs"
  shows "filter (\<lambda>f. f \<notin> set (take k xs)) xs = drop k xs"
proof -
  have "distinct (take k xs @ drop k xs)" using assms by simp
  then have disj: "set (take k xs) \<inter> set (drop k xs) = {}"
    unfolding distinct_append by blast
  have "filter (\<lambda>f. f \<notin> set (take k xs)) (take k xs @ drop k xs) = drop k xs"
    unfolding filter_append using disj
    by (auto simp: filter_empty_conv filter_id_conv)
  then show ?thesis by simp
qed

lemma keep_newest:
  fixes xs :: "'a::linorder list"
  assumes "distinct xs"
  shows "sort (filter P (filter (\<lambda>f. f \<notin> set (take k (sort (filter P xs)))) xs)) =
         drop k (sort (filter P xs))"
proof -
  let ?bs = "sort (filter P xs)"
  have "sort (filter P (filter (\<lambda>f. f \<notin> set (take k ?bs)) xs)) =
        sort (filter (\<lambda>f. f \<notin> set (take k ?bs)) (filter P xs))"
    by (simp add: conj_commute)
  also have "\<dots> = filter (\<lambda>f. f \<notin> set (take k ?bs)) ?bs"
    by (simp only: filter_sort)
  also have "\<dots> = drop k ?bs"
    using assms by (intro filter_out_prefix) simp
  finally show ?thesis .
qed

subsection \<open>Registration by one-time password\<close>

text \<open>
  Claim C6. A password issued more than 24 hours before it is redeemed makes
  \<^verbatim>\<open>/set_tag\<close> answer that the password has expired; the password is removed from
  \<^verbatim>\<open>one_time_passwords\<close> and the tags, levels, flags and dialogs are as before, so no
  admin is created. An unknown password gets the wrong-password answer and the registry
  is unchanged.
\<close>

theorem set_tag_expired_or_unknown:
  "(dict_get (one_time_passwords st) pw = Some issued \<and> day_us < now - issued \<longrightarrow>
      set_tag_command e now st uid chat [pw, tag] =
        (st\<lparr>one_time_passwords := dict_del (one_time_passwords st) pw\<rparr>,
         [SendMessage chat PasswordExpired]) \<and>
      dict_get (one_time_passwords (fst (set_tag_command e now st uid chat [pw, tag]))) pw = None \<and>
      admin_tags (fst (set_tag_command e now st uid chat [pw, tag])) = admin_tags st \<and>
      admin_levels (fst (set_tag_command e now st uid chat [pw, tag])) = admin_levels st \<and>
      admin_active_status (fst (set_tag_command e now st uid chat [pw, tag])) =
        admin_active_status st \<and>
      active_dialogs (fst (set_tag_command e now st uid chat [pw, tag])) = active_dialogs st) \<and>
   (dict_get (one_time_passwords st) pw = None \<longrightarrow>
      set_tag_command e now st uid chat [pw, tag] = (st, [SendMessage chat WrongPassword]))"
  by (simp add: set_tag_command_def dict_get_del)

theorem set_tag_expired_or_unknown_witness:
  "dict_get (one_time_passwords password_issued) ''k3Jx82Qa'' = Some 0 \<and>
   day_us < 90000000000 - 0 \<and>
   set_tag_command all_delivered 90000000000 password_issued 7 7 [''k3Jx82Qa'', ''bob''] =
     (password_issued\<lparr>one_time_passwords := []\<rparr>, [SendMessage 7 PasswordExpired]) \<and>
   dict_get (one_time_passwords password_issued) ''nope'' = None \<and>
   set_tag_command all_delivered 90000000000 password_issued 7 7 [''nope'', ''bob''] =
     (password_issued, [SendMessage 7 WrongPassword])"
  using set_tag_expired_or_unknown [where st = password_issued and pw = "''k3Jx82Qa''"
      and issued = 0 and now = 90000000000 and e = all_delivered and uid = 7 and chat = 7
      and tag = "''bob''"]
    set_tag_expired_or_unknown [where st = password_issued and pw = "''nope''"
      and issued = 0 and now = 90000000000 and e = all_delivered and uid = 7 and chat = 7
      and tag = "''bob''"]
  by (simp add: password_issued_def day_us_def)

text \<open>
  Claim C10. A user who is already in \<^verbatim>\<open>admin_levels\<close>, at whatever level, and redeems
  a password that is at most 24 hours old is registered again: the tag becomes the
  requested one, the level becomes 1, the flag becomes active and the password is used
  up. When the database write and the confirmation go through, the calls are the write
  and the confirmation that the tag is set.
\<close>

theorem set_tag_by_registered_admin:
  assumes "dict_get (admin_levels st) uid = Some level"
    and "dict_get (one_time_passwords st) pw = Some issued"
    and "now - issued \<le> day_us"
  shows "let st' = fst (set_tag_command e now st uid chat [pw, tag]) in
     dict_get (admin_tags st') uid = Some tag \<and>
     dict_get (admin_levels st') uid = Some 1 \<and>
     dict_get (admin_active_status st') uid = Some True \<and>
     dict_get (one_time_passwords st') pw = None \<and>
     active_dialogs st' = active_dialogs st \<and>
     (db_ok e \<and> delivered e chat \<longrightarrow>
        snd (set_tag_command e now st uid chat [pw, tag]) =
          [UpsertAdmin uid tag 1 True, SendMessage chat (TagSet tag)])"
  using assms by (simp add: set_tag_command_def Let_def dict_get_set dict_get_del)

theorem set_tag_by_registered_admin_witness:
  "dict_get (admin_levels password_issued) 1 = Some 2 \<and>
   dict_get (one_time_passwords password_issued) ''k3Jx82Qa'' = Some 0 \<and>
   3600000000 - 0 \<le> day_us \<and>
   db_ok all_delivered \<and> delivered all_delivered 1 \<and>
   set_tag_command all_delivered 3600000000 password_issued 1 1 [''k3Jx82Qa'', ''boss''] =
     (\<lparr>admin_tags = [(1, ''boss'')], admin_levels = [(1, 1)], active_dialogs = [],
       one_time_passwords = [], admin_active_status = [(1, True)]\<rparr>,
      [UpsertAdmin 1 ''boss'' 1 True, SendMessage 1 (TagSet ''boss'')])"
  using set_tag_by_registered_admin [where st = password_issued and uid = 1 and level = 2
      and pw = "''k3Jx82Qa''" and issued = 0 and now = 3600000000 and e = all_delivered
      and chat = 1 and tag = "''boss''"]
  by (simp add: password_issued_def all_delivered_def day_us_def delivered_def
      set_tag_command_def)

text \<open>
  Claim C2 says that \<^verbatim>\<open>/set_tag\<close> refuses a tag another admin holds.
  \<^verbatim>\<open>set_tag_command\<close> compares the tag with nothing: from a fresh start, the seeded
  admin \<open>1\<close> (tag \<^verbatim>\<open>admin\<close>) issues a password, user \<open>2\<close> redeems it with the tag
  \<^verbatim>\<open>admin\<close>, and both hold the tag, although the table \<^verbatim>\<open>admin_tags\<close> declares
  the column \<^verbatim>\<open>tag TEXT UNIQUE NOT NULL\<close>.
\<close>

theorem set_tag_accepts_taken_tag:
  "run all_delivered
     [(0, Button 1 1 GeneratePassword ''k3Jx82Qa''),
      (60000000, SetTag 2 2 [''k3Jx82Qa'', ''admin''])] (initial_state 1) =
   (\<lparr>admin_tags = [(1, ''admin''), (2, ''admin'')], admin_levels = [(1, 2), (2, 1)],
     active_dialogs = [], one_time_passwords = [],
     admin_active_status = [(1, True), (2, True)]\<rparr>,
    [AnswerCallback, SendMessage 1 (PasswordIssued ''k3Jx82Qa''),
     UpsertAdmin 2 ''admin'' 1 True, SendMessage 2 (TagSet ''admin'')])"
  by code_simp

subsection \<open>Claiming a client\<close>

text \<open>
  What the two claim paths do check: the button refuses a client that is already a value
  of \<^verbatim>\<open>active_dialogs\<close>, and so keeps the clients of the table pairwise distinct.
\<close>

lemma button_claim_of_taken_client:
  "c \<in> set (dict_values (active_dialogs st)) \<Longrightarrow> answer_ok e \<Longrightarrow>
   button_callback e now pw st u chat (TakeClient c) =
     (st, [AnswerCallback, EditMessage chat ClientAlreadyTaken])"
  by (simp add: button_callback_def button_branch_def)

lemma button_claim_keeps_clients_apart:
  "distinct (dict_values (active_dialogs st)) \<Longrightarrow>
   distinct (dict_values (active_dialogs
     (fst (button_callback e now pw st u chat (TakeClient c)))))"
  by (simp add: button_callback_def button_branch_def dict_set_distinct_values)

text \<open>
  Claim C1 says that no client is the value of two admin keys in a reachable state. The
  tag path of \<^verbatim>\<open>handle_message\<close> does not look at the values of \<^verbatim>\<open>active_dialogs\<close>:
  from a fresh start with a second admin \<^verbatim>\<open>bob\<close> registered, client \<open>100\<close> writes
  \<^verbatim>\<open>#admin\<close> and then \<^verbatim>\<open>#bob\<close>, and is the client of both admins.
\<close>

theorem tag_claim_duplicates_client:
  "active_dialogs (fst (run all_delivered
      [(0, Button 1 1 GeneratePassword ''k3Jx82Qa''),
       (60000000, SetTag 2 2 [''k3Jx82Qa'', ''bob'']),
       (120000000, TextMessage 100 100 ''#admin''),
       (180000000, TextMessage 100 100 ''#bob'')] (initial_state 1))) = [(1, 100), (2, 100)] \<and>
   \<not> distinct (dict_values (active_dialogs (fst (run all_delivered
      [(0, Button 1 1 GeneratePassword ''k3Jx82Qa''),
       (60000000, SetTag 2 2 [''k3Jx82Qa'', ''bob'']),
       (120000000, TextMessage 100 100 ''#admin''),
       (180000000, TextMessage 100 100 ''#bob'')] (initial_state 1)))))"
  by code_simp

text \<open>
  Claim C3 says that a claim fails when the claiming admin is busy and when the client is
  already claimed, with the table unchanged. Each path has one of the two checks only.
  The button does not look at the admin's own entry: admin \<open>1\<close>, in a dialog with
  client \<open>100\<close>, takes client \<open>200\<close>, and the entry is overwritten. The tag path does
  not look at the client: client \<open>100\<close>, in a dialog with admin \<open>1\<close>, selects
  \<^verbatim>\<open>#bob\<close> and gets a second entry.
\<close>

theorem claim_overwrites_and_shares:
  "button_callback all_delivered 0 [] two_admins 1 (- 1000) (TakeClient 200) =
     (two_admins\<lparr>active_dialogs := [(1, 200)]\<rparr>,
      [AnswerCallback, EditMessage (- 1000) ClientTaken, SendMessage 200 AdminJoined]) \<and>
   handle_message all_delivered two_admins 100 100 ''#bob'' =
     (two_admins\<lparr>active_dialogs := [(1, 100), (2, 100)]\<rparr>,
      [SaveState ([(1, ''admin''), (2, ''bob'')], [(1, 2), (2, 1)], [(1, 100), (2, 100)],
                  [(1, True), (2, True)]),
       SendMessage 100 (AdminChosen ''bob''), SendMessage 2 ClientChoseYou])"
  by code_simp

subsection \<open>Saving before notifying\<close>

text \<open>
  The button's claim and the confirmed close never call \<^verbatim>\<open>save_state()\<close>, whatever
  the registry and the outside's answers are.
\<close>

lemma button_claim_never_saves:
  "SaveState s \<notin> set (snd (button_callback e now pw st u chat (TakeClient c)))"
  using attempt_subset [of "[(EditMessage chat ClientTaken, edit_ok e),
      (SendMessage c AdminJoined, delivered e c)]"]
  by (auto simp: button_callback_def button_branch_def simp del: attempt.simps)

lemma confirm_close_never_saves:
  "SaveState s \<notin> set (snd (button_callback e now pw st u chat ConfirmClose))"
proof (cases "dict_get (active_dialogs st) u")
  case None
  then show ?thesis by (simp add: button_callback_def button_branch_def)
next
  case (Some c)
  then show ?thesis
    using attempt_subset [of "[(SendMessage c DialogClosedClient, delivered e c),
      (EditMessage chat DialogClosedAdmin, edit_ok e)]"]
    by (auto simp: button_callback_def button_branch_def simp del: attempt.simps)
qed

lemma tag_claim_saves_first:
  assumes "\<not> dict_has (admin_levels st) user_id"
    and "scan_tags (admin_tags st) (admin_active_status st) (lower tag) = Selected a"
    and "a \<noteq> 0" and "\<not> dict_has (active_dialogs st) a"
  shows "hd (snd (handle_message e st user_id chat_id (CHR ''#'' # tag))) =
         SaveState (snapshot_of (st\<lparr>active_dialogs := dict_set (active_dialogs st) a chat_id\<rparr>))"
  using assms
  by (simp add: handle_message_def then_send_def Let_def split: prod.splits)

text \<open>
  Claim C4 says that every change of the assignment table is saved before a notification
  goes out. The button's claim and the confirmed close change \<^verbatim>\<open>active_dialogs\<close> and
  notify the admin and the client, with no save among their calls.
\<close>

theorem button_claim_and_release_unsaved:
  "button_callback all_delivered 0 [] (initial_state 1) 1 (- 1000) (TakeClient 100) =
     ((initial_state 1)\<lparr>active_dialogs := [(1, 100)]\<rparr>,
      [AnswerCallback, EditMessage (- 1000) ClientTaken, SendMessage 100 AdminJoined]) \<and>
   button_callback all_delivered 0 [] two_admins 1 1 ConfirmClose =
     (two_admins\<lparr>active_dialogs := []\<rparr>,
      [AnswerCallback, SendMessage 100 DialogClosedClient, EditMessage 1 DialogClosedAdmin])"
  by code_simp

subsection \<open>Transfer\<close>

text \<open>
  Claim C5. \<^verbatim>\<open>transfer_client\<close> answers that there is no dialog to hand over when the
  initiating admin has none, and that the target is busy when the target already has a
  dialog; in both cases the registry is unchanged. Otherwise, when both chats can be
  fetched, the initiator's entry is removed and the target gets the same client, nothing
  else in the registry changes, and the first and only \<^verbatim>\<open>save_state()\<close> of the handler
  writes the table with both changes, before any notification.
\<close>

theorem transfer_client_moves_dialog:
  "(dict_get (active_dialogs st) u = None \<longrightarrow>
      transfer_client e st u chat t = (st, [EditMessage chat NoDialogToTransfer])) \<and>
   (dict_get (active_dialogs st) u = Some c \<and> dict_has (active_dialogs st) t \<longrightarrow>
      transfer_client e st u chat t =
        (st, attempt [(EditMessage chat TransferTargetBusy, edit_ok e),
                      (EditMarkup chat, edit_ok e)])) \<and>
   (dict_get (active_dialogs st) u = Some c \<and> \<not> dict_has (active_dialogs st) t \<and>
    chat_known e t \<and> chat_known e c \<longrightarrow>
      (let st' = fst (transfer_client e st u chat t);
           es = snd (transfer_client e st u chat t)
       in dict_get (active_dialogs st') u = None \<and>
          dict_get (active_dialogs st') t = Some c \<and>
          (\<forall>a. a \<noteq> u \<and> a \<noteq> t \<longrightarrow>
             dict_get (active_dialogs st') a = dict_get (active_dialogs st) a) \<and>
          st' = st\<lparr>active_dialogs := active_dialogs st'\<rparr> \<and>
          es \<noteq> [] \<and> hd es = SaveState (snapshot_of st') \<and>
          (\<forall>s. SaveState s \<notin> set (tl es))))"
proof (intro conjI impI)
  assume "dict_get (active_dialogs st) u = None"
  then show "transfer_client e st u chat t = (st, [EditMessage chat NoDialogToTransfer])"
    by (simp add: transfer_client_def)
next
  assume "dict_get (active_dialogs st) u = Some c \<and> dict_has (active_dialogs st) t"
  then show "transfer_client e st u chat t =
        (st, attempt [(EditMessage chat TransferTargetBusy, edit_ok e),
                      (EditMarkup chat, edit_ok e)])"
    by (simp add: transfer_client_def)
next
  assume a: "dict_get (active_dialogs st) u = Some c \<and> \<not> dict_has (active_dialogs st) t \<and>
    chat_known e t \<and> chat_known e c"
  then have ut: "u \<noteq> t"
    by (auto simp: dict_has_def)
  from a ut show "let st' = fst (transfer_client e st u chat t);
           es = snd (transfer_client e st u chat t)
       in dict_get (active_dialogs st') u = None \<and>
          dict_get (active_dialogs st') t = Some c \<and>
          (\<forall>a. a \<noteq> u \<and> a \<noteq> t \<longrightarrow>
             dict_get (active_dialogs st') a = dict_get (active_dialogs st) a) \<and>
          st' = st\<lparr>active_dialogs := active_dialogs st'\<rparr> \<and>
          es \<noteq> [] \<and> hd es = SaveState (snapshot_of st') \<and>
          (\<forall>s. SaveState s \<notin> set (tl es))"
    by (simp add: transfer_client_def Let_def dict_get_set dict_get_del)
qed

theorem transfer_client_moves_dialog_witness:
  "dict_get (active_dialogs two_admins) 3 = None \<and>
   transfer_client all_delivered two_admins 3 3 2 =
     (two_admins, [EditMessage 3 NoDialogToTransfer]) \<and>
   dict_get (active_dialogs both_busy) 1 = Some 100 \<and> dict_has (active_dialogs both_busy) 2 \<and>
   transfer_client all_delivered both_busy 1 1 2 =
     (both_busy, [EditMessage 1 TransferTargetBusy, EditMarkup 1]) \<and>
   dict_get (active_dialogs two_admins) 1 = Some 100 \<and>
   \<not> dict_has (active_dialogs two_admins) 2 \<and>
   chat_known all_delivered 2 \<and> chat_known all_delivered 100 \<and>
   dict_get (active_dialogs (fst (transfer_client all_delivered two_admins 1 1 2))) 1 = None \<and>
   dict_get (active_dialogs (fst (transfer_client all_delivered two_admins 1 1 2))) 2 = Some 100 \<and>
   hd (snd (transfer_client all_delivered two_admins 1 1 2)) =
     SaveState ([(1, ''admin''), (2, ''bob'')], [(1, 2), (2, 1)], [(2, 100)],
                [(1, True), (2, True)])"
  using transfer_client_moves_dialog [where st = two_admins and u = 3 and e = all_delivered
      and chat = 3 and t = 2 and c = 100]
    transfer_client_moves_dialog [where st = both_busy and u = 1 and e = all_delivered
      and chat = 1 and t = 2 and c = 100]
    transfer_client_moves_dialog [where st = two_admins and u = 1 and e = all_delivered
      and chat = 1 and t = 2 and c = 100]
  by (simp add: two_admins_def both_busy_def all_delivered_def dict_has_def Let_def
      snapshot_of_def transfer_client_def delivered_def)

subsection \<open>Closing a dialog\<close>

text \<open>
  Closing a dialog takes two buttons: the close button asks for confirmation when the
  admin has a dialog and otherwise shows that there are no active dialogs; the
  confirmation button removes the entry. After a confirmed close, a further press of
  either button by the same admin leaves the whole registry (dialogs, tags, levels,
  flags, passwords) as it is. Only the close button shows that the admin has no active
  dialogs; the confirmation button then makes no call but the answer to the callback.
\<close>

lemma second_release_changes_nothing:
  assumes "dict_get (active_dialogs st) u = Some c" and "answer_ok e"
  shows "let st1 = fst (button_callback e now pw st u chat ConfirmClose) in
     st1 = st\<lparr>active_dialogs := dict_del (active_dialogs st) u\<rparr> \<and>
     dict_get (active_dialogs st1) u = None \<and>
     button_callback e' now' pw' st1 u chat' ConfirmClose = (st1, [AnswerCallback]) \<and>
     (answer_ok e' \<longrightarrow>
        button_callback e' now' pw' st1 u chat' CloseDialog =
          (st1, [AnswerCallback, EditMessage chat' NoActiveDialogs]))"
  using assms
  by (simp add: button_callback_def button_branch_def Let_def dict_get_del dict_has_def)

lemma second_release_changes_nothing_example:
  "dict_get (active_dialogs two_admins) 1 = Some 100 \<and> answer_ok all_delivered \<and>
   fst (button_callback all_delivered 1 [] two_admins 1 1 ConfirmClose) =
     two_admins\<lparr>active_dialogs := []\<rparr> \<and>
   button_callback all_delivered 2 [] (two_admins\<lparr>active_dialogs := []\<rparr>) 1 1 ConfirmClose =
     (two_admins\<lparr>active_dialogs := []\<rparr>, [AnswerCallback]) \<and>
   button_callback all_delivered 2 [] (two_admins\<lparr>active_dialogs := []\<rparr>) 1 1 CloseDialog =
     (two_admins\<lparr>active_dialogs := []\<rparr>, [AnswerCallback, EditMessage 1 NoActiveDialogs])"
  using second_release_changes_nothing [where st = two_admins and u = 1 and c = 100
      and e = all_delivered and now = 1 and pw = "[]" and chat = 1 and e' = all_delivered
      and now' = 2 and pw' = "[]" and chat' = 1]
  by (simp add: two_admins_def all_delivered_def Let_def button_callback_def
      button_branch_def delivered_def dict_has_def)

text \<open>
  Claim C7 says that a second release by the same admin reports that there is no active
  dialog. The release itself is the confirmation button, and its branch has no
  \<^verbatim>\<open>else\<close>: pressed again after a close that went through, it reports nothing.
  The same holds when client \<open>100\<close> has blocked the bot: the first press deletes the
  entry and stops at the message to the client, so the confirmation button stays on the
  admin's screen, and the second press is answered and nothing else.
\<close>

theorem repeated_confirm_close_is_silent:
  "button_callback all_delivered 1 [] two_admins 1 1 ConfirmClose =
     (two_admins\<lparr>active_dialogs := []\<rparr>,
      [AnswerCallback, SendMessage 100 DialogClosedClient, EditMessage 1 DialogClosedAdmin]) \<and>
   button_callback all_delivered 2 [] (two_admins\<lparr>active_dialogs := []\<rparr>) 1 1 ConfirmClose =
     (two_admins\<lparr>active_dialogs := []\<rparr>, [AnswerCallback]) \<and>
   button_callback client_blocked 1 [] two_admins 1 1 ConfirmClose =
     (two_admins\<lparr>active_dialogs := []\<rparr>,
      [AnswerCallback, SendMessage 100 DialogClosedClient]) \<and>
   button_callback client_blocked 2 [] (two_admins\<lparr>active_dialogs := []\<rparr>) 1 1 ConfirmClose =
     (two_admins\<lparr>active_dialogs := []\<rparr>, [AnswerCallback])"
  by (simp add: button_callback_def button_branch_def two_admins_def all_delivered_def
      client_blocked_def delivered_def)

subsection \<open>Backups at start\<close>

text \<open>
  Claim C9. When the database file is there and the copy and the deletions succeed,
  \<^verbatim>\<open>init_database\<close> copies the file to \<^verbatim>\<open>support_bot_backup_<stamp>.db\<close> first, then
  deletes all but the five greatest \<^verbatim>\<open>.db\<close> names of the backup directory, smallest
  name first, and only then opens the database. Every deleted name is smaller than every
  \<^verbatim>\<open>.db\<close> name that stays, at most five stay, and other files are not touched.
\<close>

theorem init_database_backup_keeps_five:
  assumes "db_exists fs" and "copy_ok io" and "\<forall>f. remove_ok io f" and "distinct (backup_dir fs)"
  shows
    "let copied = (if backup_name stamp \<in> set (backup_dir fs) then backup_dir fs
                   else backup_dir fs @ [backup_name stamp]);
         backups = sort (filter (\<lambda>f. endswith f ''.db'') copied);
         old = take (length backups - 5) backups;
         fs' = fst (init_database_open io stamp fs)
     in snd (init_database_open io stamp fs) =
          CopyDb (backup_name stamp) # map RemoveBackup old @ [OpenDb] \<and>
        sorted old \<and>
        sort (filter (\<lambda>f. endswith f ''.db'') (backup_dir fs')) =
          drop (length backups - 5) backups \<and>
        length (filter (\<lambda>f. endswith f ''.db'') (backup_dir fs')) = min 5 (length backups) \<and>
        (\<forall>f \<in> set old. \<forall>g \<in> set (filter (\<lambda>f. endswith f ''.db'') (backup_dir fs')). f < g) \<and>
        filter (\<lambda>f. \<not> endswith f ''.db'') (backup_dir fs') =
          filter (\<lambda>f. \<not> endswith f ''.db'') copied"
proof -
  define copied where "copied = (if backup_name stamp \<in> set (backup_dir fs) then backup_dir fs
                   else backup_dir fs @ [backup_name stamp])"
  define backups where "backups = sort (filter (\<lambda>f. endswith f ''.db'') copied)"
  define old where "old = take (length backups - 5) backups"
  define dir' where "dir' = filter (\<lambda>f. f \<notin> set old) copied"
  have dc: "distinct copied"
    using assms(4) by (simp add: copied_def)
  have db: "distinct backups" "sorted backups"
    using dc by (simp_all add: backups_def)
  have rm: "remove_each (remove_ok io) old copied = (dir', map RemoveBackup old)"
    using assms(3) by (simp add: remove_each_all_ok dir'_def)
  have res: "init_database_open io stamp fs =
      (fs\<lparr>backup_dir := dir', db_exists := True\<rparr>,
       CopyDb (backup_name stamp) # map RemoveBackup old @ [OpenDb])"
  proof -
    have "take (length (filter (\<lambda>f. endswith f ''.db'') copied) - 5) backups = old"
      by (simp add: old_def backups_def)
    then show ?thesis
      using assms(1,2) rm
      by (simp add: init_database_open_def create_backup_def Let_def
          copied_def [symmetric] backups_def [symmetric])
  qed
  have kept: "sort (filter (\<lambda>f. endswith f ''.db'') dir') = drop (length backups - 5) backups"
    unfolding dir'_def old_def backups_def by (rule keep_newest [OF dc])
  have len: "length (filter (\<lambda>f. endswith f ''.db'') dir') = min 5 (length backups)"
  proof -
    have "length (filter (\<lambda>f. endswith f ''.db'') dir') =
          length (sort (filter (\<lambda>f. endswith f ''.db'') dir'))" by simp
    also have "\<dots> = length (drop (length backups - 5) backups)" by (simp only: kept)
    finally show ?thesis by simp
  qed
  have older: "\<forall>f \<in> set old. \<forall>g \<in> set (filter (\<lambda>f. endswith f ''.db'') dir'). f < g"
  proof -
    have "set (filter (\<lambda>f. endswith f ''.db'') dir') =
          set (sort (filter (\<lambda>f. endswith f ''.db'') dir'))" by simp
    also have "\<dots> = set (drop (length backups - 5) backups)" by (simp only: kept)
    finally show ?thesis
      using strict_take_drop [OF db(2) db(1), of "length backups - 5"] by (simp add: old_def)
  qed
  have rest: "filter (\<lambda>f. \<not> endswith f ''.db'') dir' = filter (\<lambda>f. \<not> endswith f ''.db'') copied"
  proof -
    have "set old \<subseteq> {f. endswith f ''.db''}"
      unfolding old_def backups_def by (auto dest: in_set_takeD)
    then show ?thesis
      unfolding dir'_def by (auto intro: filter_cong)
  qed
  have so: "sorted old"
    using db(2) by (simp add: old_def sorted_wrt_take)
  show ?thesis
    unfolding Let_def copied_def [symmetric] backups_def [symmetric] old_def [symmetric]
    using res kept len older rest so by simp
qed

theorem init_database_backup_keeps_five_witness:
  "db_exists crowded_dir \<and> copy_ok files_ok \<and> (\<forall>f. remove_ok files_ok f) \<and>
   distinct (backup_dir crowded_dir) \<and>
   snd (init_database_open files_ok ''20240105_120000'' crowded_dir) =
     [CopyDb ''support_bot_backup_20240105_120000.db'',
      RemoveBackup ''support_bot_backup_20231231_120000.db'', OpenDb] \<and>
   length (filter (\<lambda>f. endswith f ''.db'')
     (backup_dir (fst (init_database_open files_ok ''20240105_120000'' crowded_dir)))) = 5"
proof -
  have h1: "db_exists crowded_dir" and h2: "copy_ok files_ok"
    and h3: "\<forall>f. remove_ok files_ok f" and h4: "distinct (backup_dir crowded_dir)"
    by (simp_all add: crowded_dir_def files_ok_def)
  have sorted_names:
    "sort (filter (\<lambda>f. endswith f ''.db'')
       (if backup_name ''20240105_120000'' \<in> set (backup_dir crowded_dir)
        then backup_dir crowded_dir
        else backup_dir crowded_dir @ [backup_name ''20240105_120000''])) =
     [''support_bot_backup_20231231_120000.db'', ''support_bot_backup_20240101_120000.db'',
      ''support_bot_backup_20240102_120000.db'', ''support_bot_backup_20240103_120000.db'',
      ''support_bot_backup_20240104_120000.db'', ''support_bot_backup_20240105_120000.db'']"
    by code_simp
  show ?thesis
    using init_database_backup_keeps_five [OF h1 h2 h3 h4, of "''20240105_120000''"] h1 h2 h3 h4
    unfolding Let_def sorted_names
    by (simp add: backup_name_def)
qed

end
